theory Spec2Isabelle
  imports Complex_Main "HOL-Library.Multiset" "HOL-Library.Sublist"
begin

section \<open>Python values and the builtins that collector.py applies to them\<close>

text \<open>
  The nodes that \<^verbatim>\<open>collector.py\<close> handles are whatever \<^verbatim>\<open>yaml.safe_load\<close> returned:
  dictionaries, lists, strings, numbers, booleans and \<^verbatim>\<open>None\<close>. A dictionary is an
  association list in insertion order whose keys are pairwise different, as in a Python
  dict. A string is a list of characters, each a code point below 256; text with higher
  code points is outside the model. A float is the real number that the double denotes;
  infinities and NaN are outside the model, and the arithmetic on floats is a parameter
  (see \<open>float_arith\<close> below).
\<close>

datatype pyval =
    PNone
  | PBool bool
  | PInt int
  | PFloat real
  | PStr string
  | PList "pyval list"
  | PDict "(pyval \<times> pyval) list"

text \<open>The exceptions that the modelled paths can raise.\<close>

datatype pyerror =
    AttributeError
  | TypeError
  | ValueError
  | OSError
  | YAMLError

text \<open>Truth value testing, as \<^verbatim>\<open>if x\<close> and \<^verbatim>\<open>x and y\<close> do it.\<close>

fun truthy :: "pyval \<Rightarrow> bool" where
  "truthy PNone = False"
| "truthy (PBool b) = b"
| "truthy (PInt n) = (n \<noteq> 0)"
| "truthy (PFloat x) = (x \<noteq> 0)"
| "truthy (PStr s) = (s \<noteq> [])"
| "truthy (PList xs) = (xs \<noteq> [])"
| "truthy (PDict kvs) = (kvs \<noteq> [])"

text \<open>Whether a value is a \<^verbatim>\<open>str\<close>.\<close>

fun is_str :: "pyval \<Rightarrow> bool" where
  "is_str (PStr s) = True"
| "is_str _ = False"

text \<open>
  \<^verbatim>\<open>d.get(key, default)\<close>. Only a dictionary has the method: on any other value the
  attribute lookup raises \<^verbatim>\<open>AttributeError\<close>.
\<close>

fun py_get :: "pyval \<Rightarrow> string \<Rightarrow> pyval \<Rightarrow> pyerror + pyval" where
  "py_get (PDict kvs) key dflt =
     (case map_of kvs (PStr key) of Some v \<Rightarrow> Inr v | None \<Rightarrow> Inr dflt)"
| "py_get _ key dflt = Inl AttributeError"

text \<open>
  Iteration, as \<^verbatim>\<open>list.extend\<close> and \<^verbatim>\<open>for\<close> do it: a list gives its items, a string
  its characters, a dictionary its keys; the other values are not iterable.
\<close>

fun py_iter :: "pyval \<Rightarrow> pyerror + pyval list" where
  "py_iter (PList xs) = Inr xs"
| "py_iter (PStr s) = Inr (map (\<lambda>c. PStr [c]) s)"
| "py_iter (PDict kvs) = Inr (map fst kvs)"
| "py_iter _ = Inl TypeError"

text \<open>
  \<^verbatim>\<open>str.isspace\<close> on one character below 256: tab to carriage return, the four
  separators FS, GS, RS, US, the space, NEL (0x85) and the no-break space (0xA0).
\<close>

definition py_isspace :: "char \<Rightarrow> bool" where
  "py_isspace c = ((of_char c :: nat) \<in> {9, 10, 11, 12, 13, 28, 29, 30, 31, 32, 133, 160})"

text \<open>\<^verbatim>\<open>str.strip()\<close>: whitespace is removed at both ends.\<close>

definition strip :: "string \<Rightarrow> string" where
  "strip s = rev (dropWhile py_isspace (rev (dropWhile py_isspace s)))"

text \<open>\<^verbatim>\<open>str.startswith\<close>.\<close>

definition startswith :: "string \<Rightarrow> string \<Rightarrow> bool" where
  "startswith s p = (take (length p) s = p)"

text \<open>
  \<^verbatim>\<open>str.lower()\<close> on characters below 256: the 26 capital letters and the 30 capital
  letters of Latin-1 (0xC0 to 0xDE without the multiplication sign 0xD7) are replaced by
  the small letter 32 places further on; every other character stays.
\<close>

definition lower_char :: "char \<Rightarrow> char" where
  "lower_char c =
     (case map_of
        (zip (''ABCDEFGHIJKLMNOPQRSTUVWXYZ'' @
              [CHR 0xC0, CHR 0xC1, CHR 0xC2, CHR 0xC3, CHR 0xC4, CHR 0xC5, CHR 0xC6, CHR 0xC7,
               CHR 0xC8, CHR 0xC9, CHR 0xCA, CHR 0xCB, CHR 0xCC, CHR 0xCD, CHR 0xCE, CHR 0xCF,
               CHR 0xD0, CHR 0xD1, CHR 0xD2, CHR 0xD3, CHR 0xD4, CHR 0xD5, CHR 0xD6, CHR 0xD8,
               CHR 0xD9, CHR 0xDA, CHR 0xDB, CHR 0xDC, CHR 0xDD, CHR 0xDE])
             (''abcdefghijklmnopqrstuvwxyz'' @
              [CHR 0xE0, CHR 0xE1, CHR 0xE2, CHR 0xE3, CHR 0xE4, CHR 0xE5, CHR 0xE6, CHR 0xE7,
               CHR 0xE8, CHR 0xE9, CHR 0xEA, CHR 0xEB, CHR 0xEC, CHR 0xED, CHR 0xEE, CHR 0xEF,
               CHR 0xF0, CHR 0xF1, CHR 0xF2, CHR 0xF3, CHR 0xF4, CHR 0xF5, CHR 0xF6, CHR 0xF8,
               CHR 0xF9, CHR 0xFA, CHR 0xFB, CHR 0xFC, CHR 0xFD, CHR 0xFE])) c of
        Some d \<Rightarrow> d
      | None \<Rightarrow> c)"

definition lower :: "string \<Rightarrow> string" where
  "lower s = map lower_char s"

text \<open>
  \<^verbatim>\<open>str.splitlines()\<close> on characters below 256. A line ends at LF, CR, CR LF, VT, FF,
  FS, GS, RS or NEL (0x85); the line ends are dropped, and a final line end opens no
  further line.
\<close>

definition is_linebreak :: "char \<Rightarrow> bool" where
  "is_linebreak c = ((of_char c :: nat) \<in> {10, 11, 12, 13, 28, 29, 30, 133})"

fun splitlines_from :: "string \<Rightarrow> string \<Rightarrow> string list" where
  "splitlines_from cur [] = (if cur = [] then [] else [rev cur])"
| "splitlines_from cur [c] =
     (if is_linebreak c then [rev cur] else [rev (c # cur)])"
| "splitlines_from cur (c # d # cs) =
     (if c = CHR 0x0D \<and> d = CHR 0x0A then rev cur # splitlines_from [] cs
      else if is_linebreak c then rev cur # splitlines_from [] (d # cs)
      else splitlines_from (c # cur) (d # cs))"

definition splitlines :: "string \<Rightarrow> string list" where
  "splitlines s = splitlines_from [] s"

text \<open>
  \<^verbatim>\<open>int(x)\<close>. For a string, the whitespace that \<^verbatim>\<open>int\<close> skips at both ends is narrower
  than that of \<^verbatim>\<open>strip\<close>: tab to carriage return and the space, and, above 127, NEL and
  the no-break space; the separators FS, GS, RS and US are not skipped. What remains may
  carry one sign and is a run of decimal digits in which single underscores may stand
  between digits; more than 4300 digits are refused (the default limit of CPython since
  3.11). Anything else is a \<^verbatim>\<open>ValueError\<close>. A float is truncated towards zero.
  \<^verbatim>\<open>None\<close>, lists and dictionaries are a \<^verbatim>\<open>TypeError\<close>.
\<close>

definition int_isspace :: "char \<Rightarrow> bool" where
  "int_isspace c = ((of_char c :: nat) \<in> {9, 10, 11, 12, 13, 32, 133, 160})"

definition digit_of :: "char \<Rightarrow> nat option" where
  "digit_of c = map_of (zip ''0123456789'' [0, 1, 2, 3, 4, 5, 6, 7, 8, 9]) c"

fun parse_digits :: "nat \<Rightarrow> bool \<Rightarrow> string \<Rightarrow> nat option" where
  "parse_digits acc after_digit [] = (if after_digit then Some acc else None)"
| "parse_digits acc after_digit (c # cs) =
     (case digit_of c of
        Some d \<Rightarrow> parse_digits (10 * acc + d) True cs
      | None \<Rightarrow>
          if c = CHR ''_'' \<and> after_digit then parse_digits acc False cs else None)"

definition parse_number :: "string \<Rightarrow> nat option" where
  "parse_number s =
     (if length (filter (\<lambda>c. digit_of c \<noteq> None) s) > 4300 then None
      else parse_digits 0 False s)"

definition int_of_str :: "string \<Rightarrow> int option" where
  "int_of_str s =
     (case rev (dropWhile int_isspace (rev (dropWhile int_isspace s))) of
        [] \<Rightarrow> None
      | c # cs \<Rightarrow>
          if c = CHR ''-'' then map_option (\<lambda>n. - int n) (parse_number cs)
          else if c = CHR ''+'' then map_option int (parse_number cs)
          else map_option int (parse_number (c # cs)))"

fun py_int :: "pyval \<Rightarrow> pyerror + int" where
  "py_int (PInt n) = Inr n"
| "py_int (PBool b) = Inr (if b then 1 else 0)"
| "py_int (PFloat x) = Inr (if 0 \<le> x then \<lfloor>x\<rfloor> else \<lceil>x\<rceil>)"
| "py_int (PStr s) = (case int_of_str s of Some n \<Rightarrow> Inr n | None \<Rightarrow> Inl ValueError)"
| "py_int _ = Inl TypeError"

text \<open>
  The arithmetic of the interpreter on floats: the subtraction, the multiplication, the
  \<^verbatim>\<open>sum\<close> of a list and the division that \<^verbatim>\<open>tcp_connection_test\<close> performs. Each gives
  the double that Python computes, rounding included. Comparisons of a float with an
  integer are exact and need no parameter.
\<close>

record float_arith =
  fl_sub :: "real \<Rightarrow> real \<Rightarrow> real"
  fl_mul :: "real \<Rightarrow> real \<Rightarrow> real"
  fl_sum :: "real list \<Rightarrow> real"
  fl_div :: "real \<Rightarrow> real \<Rightarrow> real"

text \<open>
  The arithmetic that rounds nothing. Where every difference, product, sum and quotient
  that is formed is itself a double, the interpreter rounds nothing either and computes
  with these operations; the times in the examples below are chosen that way.
\<close>

definition exact_arith :: float_arith where
  "exact_arith = \<lparr>fl_sub = (\<lambda>x y. x - y), fl_mul = (\<lambda>x y. x * y), fl_sum = sum_list,
                   fl_div = (\<lambda>x y. x / y)\<rparr>"

section \<open>The configuration constants\<close>

definition LATENCY_THRESHOLD :: real where
  "LATENCY_THRESHOLD = 30"

definition MIN_LATENCY_THRESHOLD :: real where
  "MIN_LATENCY_THRESHOLD = 1"

section \<open>The reachability prober: \<^verbatim>\<open>tcp_connection_test\<close>\<close>

text \<open>
  The network is the environment. One pass through the body of the loop ends in one of
  three ways. It reaches the line after \<^verbatim>\<open>sock.close()\<close>, with the code that
  \<^verbatim>\<open>connect_ex\<close> returned and the two readings of \<^verbatim>\<open>time.time()\<close> (in seconds). Or
  \<^verbatim>\<open>socket.socket\<close> or \<^verbatim>\<open>settimeout\<close> raises, and \<^verbatim>\<open>connect_ex\<close> is never called.
  Or \<^verbatim>\<open>connect_ex\<close> is called and it, or \<^verbatim>\<open>sock.close()\<close> after it, raises. The inner
  \<^verbatim>\<open>except Exception\<close> logs both kinds of exception.
\<close>

datatype attempt =
    Returned int real real
  | RaisedEarly
  | Raised

text \<open>
  One call of \<^verbatim>\<open>connect_ex\<close>: the address it was given and the timeout that was set on
  the socket.
\<close>

record connect_call =
  cc_server :: pyval
  cc_port :: int
  cc_timeout :: real

type_synonym probe_result = "bool \<times> real option"

definition skip_protocols :: "string set" where
  "skip_protocols =
     {''hysteria'', ''hysteria2'', ''hy2'', ''tuic'', ''wireguard'', ''juicity''}"

text \<open>
  One iteration of \<^verbatim>\<open>for _ in range(3)\<close>, on the pair of the list \<^verbatim>\<open>latencies\<close> and
  the calls of \<^verbatim>\<open>connect_ex\<close> made so far. A sample,
  \<^verbatim>\<open>(end_time - start_time) * 1000\<close>, is appended only when \<^verbatim>\<open>connect_ex\<close> returned 0.
\<close>

fun attempt_once :: "float_arith \<Rightarrow> connect_call \<Rightarrow> attempt
    \<Rightarrow> real list \<times> connect_call list \<Rightarrow> real list \<times> connect_call list" where
  "attempt_once fl call (Returned result start_time end_time) (latencies, calls) =
     (if result = 0
      then (latencies @ [fl_mul fl (fl_sub fl end_time start_time) 1000], calls @ [call])
      else (latencies, calls @ [call]))"
| "attempt_once fl call RaisedEarly (latencies, calls) = (latencies, calls)"
| "attempt_once fl call Raised (latencies, calls) = (latencies, calls @ [call])"

text \<open>
  \<^verbatim>\<open>tcp_connection_test(server, port, proto, timeout)\<close>. The argument \<open>net\<close> gives the
  outcome of the \<open>k\<close>-th pass through the loop. The result is the pair that the function
  returns, with the calls of \<^verbatim>\<open>connect_ex\<close> it made. \<^verbatim>\<open>proto.lower()\<close> stands before
  the \<^verbatim>\<open>try\<close>: for a \<open>proto\<close> that is not a string the call raises. The average is
  \<^verbatim>\<open>sum(latencies) / len(latencies)\<close>.
\<close>

definition tcp_connection_test :: "float_arith \<Rightarrow> pyval \<Rightarrow> int \<Rightarrow> pyval \<Rightarrow> real
    \<Rightarrow> (nat \<Rightarrow> attempt) \<Rightarrow> pyerror + (probe_result \<times> connect_call list)" where
  "tcp_connection_test fl server port proto timeout net =
     (case proto of
        PStr p \<Rightarrow>
          if lower p \<in> skip_protocols then Inr ((False, None), [])
          else
            (let call = \<lparr>cc_server = server, cc_port = port, cc_timeout = timeout\<rparr>;
                 (latencies, calls) =
                   foldl (\<lambda>st k. attempt_once fl call (net k) st) ([], []) [0..<3]
             in if latencies \<noteq> []
                then Inr ((True,
                           Some (fl_div fl (fl_sum fl latencies) (real (length latencies)))),
                          calls)
                else Inr ((False, None), calls))
      | _ \<Rightarrow> Inl AttributeError)"

text \<open>The outcomes of the three passes.\<close>

definition passes :: "(nat \<Rightarrow> attempt) \<Rightarrow> attempt list" where
  "passes net = [net 0, net 1, net 2]"

text \<open>Whether a pass called \<^verbatim>\<open>connect_ex\<close>.\<close>

fun connected :: "attempt \<Rightarrow> bool" where
  "connected (Returned result start_time end_time) = True"
| "connected RaisedEarly = False"
| "connected Raised = True"

text \<open>The samples of a list of outcomes: the durations, in milliseconds, of the passes
  in which \<^verbatim>\<open>connect_ex\<close> returned 0.\<close>

fun sample_of :: "float_arith \<Rightarrow> attempt \<Rightarrow> real option" where
  "sample_of fl (Returned result start_time end_time) =
     (if result = 0 then Some (fl_mul fl (fl_sub fl end_time start_time) 1000) else None)"
| "sample_of fl RaisedEarly = None"
| "sample_of fl Raised = None"

definition samples :: "float_arith \<Rightarrow> attempt list \<Rightarrow> real list" where
  "samples fl outs = List.map_filter (sample_of fl) outs"

text \<open>The mean of a list of floats, as the given arithmetic computes it: the sum divided
  by the number of items.\<close>

definition mean :: "float_arith \<Rightarrow> real list \<Rightarrow> real" where
  "mean fl xs = fl_div fl (fl_sum fl xs) (real (length xs))"

section \<open>The filter: \<^verbatim>\<open>check_proxies_availability\<close>\<close>

text \<open>
  One submitted unit of work: the node, and the three arguments taken from it for
  \<^verbatim>\<open>tcp_connection_test\<close>.
\<close>

record task =
  t_proxy :: pyval
  t_server :: pyval
  t_port :: int
  t_proto :: pyval

text \<open>
  The dictionary comprehension that fills \<^verbatim>\<open>futures\<close>, for one node. The condition
  \<^verbatim>\<open>proxy.get("server") and proxy.get("port")\<close> leaves the node out (\<open>None\<close>) when either
  value is missing or falsy. For a node that passes, the arguments of \<^verbatim>\<open>executor.submit\<close>
  are evaluated from left to right; \<^verbatim>\<open>int(proxy.get("port"))\<close> is among them and
  raises for a port that \<^verbatim>\<open>int\<close> cannot convert. No \<^verbatim>\<open>try\<close> surrounds the
  comprehension.
\<close>

definition task_of :: "pyval \<Rightarrow> pyerror + task option" where
  "task_of proxy =
     (case py_get proxy ''server'' PNone of
        Inl e \<Rightarrow> Inl e
      | Inr server \<Rightarrow>
          if \<not> truthy server then Inr None
          else
            (case py_get proxy ''port'' PNone of
               Inl e \<Rightarrow> Inl e
             | Inr port \<Rightarrow>
                 if \<not> truthy port then Inr None
                 else
                   (case py_int port of
                      Inl e \<Rightarrow> Inl e
                    | Inr n \<Rightarrow>
                        (case py_get proxy ''type'' (PStr ''tcp'') of
                           Inl e \<Rightarrow> Inl e
                         | Inr proto \<Rightarrow>
                             Inr (Some \<lparr>t_proxy = proxy, t_server = server,
                                        t_port = n, t_proto = proto\<rparr>)))))"

text \<open>The comprehension over the whole collection: the first exception ends it.\<close>

fun submit_tasks :: "pyval list \<Rightarrow> pyerror + task list" where
  "submit_tasks [] = Inr []"
| "submit_tasks (proxy # rest) =
     (case task_of proxy of
        Inl e \<Rightarrow> Inl e
      | Inr None \<Rightarrow> submit_tasks rest
      | Inr (Some t) \<Rightarrow>
          (case submit_tasks rest of
             Inl e \<Rightarrow> Inl e
           | Inr tasks \<Rightarrow> Inr (t # tasks)))"

text \<open>\<^verbatim>\<open>future.result()\<close> of a task: what \<^verbatim>\<open>tcp_connection_test\<close> returned or raised.\<close>

definition future_result :: "float_arith \<Rightarrow> real \<Rightarrow> (nat \<Rightarrow> attempt) \<Rightarrow> task
    \<Rightarrow> pyerror + probe_result" where
  "future_result fl timeout net t =
     (case tcp_connection_test fl (t_server t) (t_port t) (t_proto t) timeout net of
        Inl e \<Rightarrow> Inl e
      | Inr (r, calls) \<Rightarrow> Inr r)"

text \<open>
  The condition of line 136,
  \<^verbatim>\<open>is_available and LATENCY_THRESHOLD >= latency >= MIN_LATENCY_THRESHOLD\<close>.
  \<^verbatim>\<open>and\<close> stops at a false \<^verbatim>\<open>is_available\<close>; comparing a number with \<^verbatim>\<open>None\<close> raises.
\<close>

definition in_window :: "probe_result \<Rightarrow> pyerror + bool" where
  "in_window r =
     (case r of
        (is_available, latency) \<Rightarrow>
          if \<not> is_available then Inr False
          else
            (case latency of
               None \<Rightarrow> Inl TypeError
             | Some l \<Rightarrow> Inr (LATENCY_THRESHOLD \<ge> l \<and> l \<ge> MIN_LATENCY_THRESHOLD)))"

text \<open>
  The body of the loop over the futures, lines 134 to 142: whether the node is appended
  to \<^verbatim>\<open>available_proxies\<close>. An exception, from the future or from the comparison, is
  logged and the node is not appended.
\<close>

definition keeps :: "pyerror + probe_result \<Rightarrow> bool" where
  "keeps fr =
     (case fr of
        Inl e \<Rightarrow> False
      | Inr r \<Rightarrow> (case in_window r of Inl e \<Rightarrow> False | Inr b \<Rightarrow> b))"

text \<open>
  An order of \<open>n\<close> tasks: a list in which each of the positions \<open>0\<close> to \<open>n - 1\<close> stands
  once. Such a list is how the scheduler enters the model. For the probes it is the order
  in which \<^verbatim>\<open>as_completed(futures)\<close> yields the futures: every submitted future once,
  those already finished at the call in the iteration order of a set, the others as they
  finish. No order is excluded, and none follows from the order of submission.
\<close>

definition task_order :: "nat \<Rightarrow> nat list \<Rightarrow> bool" where
  "task_order n order = (mset order = mset [0..<n])"

definition collect :: "(nat \<Rightarrow> pyerror + probe_result) \<Rightarrow> task list \<Rightarrow> nat list \<Rightarrow> pyval list" where
  "collect results tasks order =
     foldl (\<lambda>available_proxies i.
              if keeps (results i) then available_proxies @ [t_proxy (tasks ! i)]
              else available_proxies)
       [] order"

text \<open>
  \<^verbatim>\<open>check_proxies_availability(proxies, timeout)\<close>. \<open>net i\<close> is the network as the probe
  of the \<open>i\<close>-th submitted task meets it, and \<open>order\<close> the order in which
  \<^verbatim>\<open>as_completed\<close> yields the futures.
\<close>

definition check_proxies_availability :: "float_arith \<Rightarrow> pyval list \<Rightarrow> real
    \<Rightarrow> (nat \<Rightarrow> nat \<Rightarrow> attempt) \<Rightarrow> nat list \<Rightarrow> pyerror + pyval list" where
  "check_proxies_availability fl proxies timeout net order =
     (case submit_tasks proxies of
        Inl e \<Rightarrow> Inl e
      | Inr tasks \<Rightarrow>
          Inr (collect (\<lambda>i. future_result fl timeout (net i) (tasks ! i)) tasks order))"

text \<open>The nodes that pass, in the order of the input collection.\<close>

definition survivors :: "float_arith \<Rightarrow> real \<Rightarrow> (nat \<Rightarrow> nat \<Rightarrow> attempt) \<Rightarrow> task list
    \<Rightarrow> pyval list" where
  "survivors fl timeout net tasks =
     map (\<lambda>i. t_proxy (tasks ! i))
       (filter (\<lambda>i. keeps (future_result fl timeout (net i) (tasks ! i))) [0..<length tasks])"

section \<open>The aggregator: \<^verbatim>\<open>process_clash\<close>, \<^verbatim>\<open>fetch_and_process_url\<close>, \<^verbatim>\<open>process_urls\<close>\<close>

text \<open>
  \<^verbatim>\<open>process_clash(data, index)\<close>, on the global list \<^verbatim>\<open>merged_proxies\<close>: the list
  before the call is an argument, the list after it is the result. The YAML decoder is a
  parameter. Every exception is caught and logged, and leaves the list as it was.
\<close>

definition process_clash :: "(string \<Rightarrow> pyerror + pyval) \<Rightarrow> string \<Rightarrow> nat \<Rightarrow> pyval list
    \<Rightarrow> pyval list" where
  "process_clash safe_load data index merged_proxies =
     (case safe_load data of
        Inl e \<Rightarrow> merged_proxies
      | Inr content \<Rightarrow>
          (case py_get content ''proxies'' (PList []) of
             Inl e \<Rightarrow> merged_proxies
           | Inr proxies \<Rightarrow>
               if truthy proxies then
                 (case py_iter proxies of
                    Inl e \<Rightarrow> merged_proxies
                  | Inr items \<Rightarrow> merged_proxies @ items)
               else merged_proxies))"

text \<open>
  What \<^verbatim>\<open>requests.get(url)\<close> followed by \<^verbatim>\<open>raise_for_status()\<close> comes to: a
  \<^verbatim>\<open>RequestException\<close>, which \<^verbatim>\<open>fetch_and_process_url\<close> catches; another exception,
  which reaches \<^verbatim>\<open>future.result()\<close> in \<^verbatim>\<open>process_urls\<close> and is caught there; or the
  text of the response.
\<close>

datatype response =
    RequestFailed
  | FetchCrashed
  | Body string

definition fetch_and_process_url :: "response \<Rightarrow> (string \<Rightarrow> pyerror + pyval) \<Rightarrow> nat
    \<Rightarrow> pyval list \<Rightarrow> pyval list" where
  "fetch_and_process_url resp safe_load index merged_proxies =
     (case resp of
        Body data \<Rightarrow> process_clash safe_load data index merged_proxies
      | RequestFailed \<Rightarrow> merged_proxies
      | FetchCrashed \<Rightarrow> merged_proxies)"

text \<open>A source-list file: absent, present but failing to open or read, or its text.\<close>

datatype list_file =
    Missing
  | Unreadable
  | Text string

text \<open>
  Lines 24 to 30: the lines of the files that exist, in the order of the files. A file
  that is missing is skipped; an exception from \<^verbatim>\<open>open\<close> or \<^verbatim>\<open>read\<close> leaves the loop.
\<close>

fun read_url_files :: "(string \<Rightarrow> list_file) \<Rightarrow> string list \<Rightarrow> pyerror + string list" where
  "read_url_files fs [] = Inr []"
| "read_url_files fs (url_file # rest) =
     (case fs url_file of
        Missing \<Rightarrow> read_url_files fs rest
      | Unreadable \<Rightarrow> Inl OSError
      | Text s \<Rightarrow>
          (case read_url_files fs rest of
             Inl e \<Rightarrow> Inl e
           | Inr urls \<Rightarrow> Inr (splitlines s @ urls)))"

text \<open>Line 33:
  \<^verbatim>\<open>[url.strip() for url in urls if url.strip() and not url.startswith('#')]\<close>.\<close>

definition clean_urls :: "string list \<Rightarrow> string list" where
  "clean_urls urls =
     map strip (filter (\<lambda>url. strip url \<noteq> [] \<and> \<not> startswith url ''#'') urls)"

text \<open>
  The URLs for which \<^verbatim>\<open>process_urls\<close> submits a fetch. An exception while the files are
  read is caught by the outer \<^verbatim>\<open>except\<close>: then nothing is submitted.
\<close>

definition submitted_urls :: "(string \<Rightarrow> list_file) \<Rightarrow> string list \<Rightarrow> string list" where
  "submitted_urls fs url_files =
     (case read_url_files fs url_files of
        Inl e \<Rightarrow> []
      | Inr urls \<Rightarrow> clean_urls urls)"

text \<open>
  \<^verbatim>\<open>process_urls(url_files, process_clash)\<close>, on \<^verbatim>\<open>merged_proxies\<close>. Task \<open>i\<close> fetches
  the \<open>i\<close>-th URL and gets the response \<open>http i url\<close>. Each task touches the shared list
  in one call of \<^verbatim>\<open>list.extend\<close>, which runs without interruption; the tasks make these
  calls in the order \<open>order\<close>, an order of the tasks that is the scheduler's. \<^verbatim>\<open>index\<close> goes to the log
  messages only. \<open>url_files\<close> is the list of paths; a single path given as a string is
  made a list of one by the first lines of the function.
\<close>

definition process_urls :: "(string \<Rightarrow> list_file) \<Rightarrow> (nat \<Rightarrow> string \<Rightarrow> response)
    \<Rightarrow> (string \<Rightarrow> pyerror + pyval) \<Rightarrow> nat list \<Rightarrow> string list \<Rightarrow> pyval list \<Rightarrow> pyval list" where
  "process_urls fs http safe_load order url_files merged_proxies =
     (let urls = submitted_urls fs url_files
      in foldl (\<lambda>merged i. fetch_and_process_url (http i (urls ! i)) safe_load i merged)
           merged_proxies order)"

text \<open>The nodes that the \<open>i\<close>-th source contributes.\<close>

definition extracted :: "(nat \<Rightarrow> string \<Rightarrow> response) \<Rightarrow> (string \<Rightarrow> pyerror + pyval)
    \<Rightarrow> string list \<Rightarrow> nat \<Rightarrow> pyval list" where
  "extracted http safe_load urls i =
     fetch_and_process_url (http i (urls ! i)) safe_load i []"


section \<open>Persistence and \<^verbatim>\<open>main\<close>\<close>

definition URL_FILE_OR_FILES :: "string list" where
  "URL_FILE_OR_FILES = [''./urls/clash.txt'', ''./urls/xxx.txt'']"

text \<open>
  The output file \<^verbatim>\<open>MERGED_PROXIES_FILE\<close>: it cannot be opened or decoded, or it holds a
  YAML document, kept as the value that \<^verbatim>\<open>yaml.safe_load\<close> gives for it. Dumping a
  collection and loading the file again gives the collection back.
\<close>

datatype disk =
    NoFile
  | Document pyval

text \<open>An attempt to write the file: it succeeds, or raises and leaves the file in the
  given state.\<close>

datatype write_outcome =
    Written
  | WriteFailed disk

datatype level = INFO | WARNING | ERROR

type_synonym log_lines = "(level \<times> string) list"

text \<open>\<^verbatim>\<open>save_yaml\<close>: the exception of a failed write is caught and logged.\<close>

definition save_yaml :: "write_outcome \<Rightarrow> pyval list \<Rightarrow> disk \<times> log_lines" where
  "save_yaml w data =
     (case w of
        Written \<Rightarrow> (Document (PDict [(PStr ''proxies'', PList data)]), [])
      | WriteFailed d \<Rightarrow> (d, [(ERROR, ''Error saving YAML file'')]))"

text \<open>\<^verbatim>\<open>load_yaml\<close>: an exception gives the empty dictionary.\<close>

definition load_yaml :: "disk \<Rightarrow> pyval \<times> log_lines" where
  "load_yaml d =
     (case d of
        NoFile \<Rightarrow> (PDict [], [(ERROR, ''Error loading YAML file'')])
      | Document v \<Rightarrow> (v, []))"

text \<open>Everything outside the program that a run depends on.\<close>

record world =
  url_lists :: "string \<Rightarrow> list_file"
  http :: "nat \<Rightarrow> string \<Rightarrow> response"
  safe_load :: "string \<Rightarrow> pyerror + pyval"
  fetch_order :: "nat list"
  first_write :: write_outcome
  second_write :: write_outcome
  arithmetic :: float_arith
  network :: "nat \<Rightarrow> nat \<Rightarrow> attempt"
  probe_order :: "nat list"

text \<open>How the process ends: \<^verbatim>\<open>main\<close> returns, or an exception leaves it.\<close>

datatype exit = Completed | Traceback pyerror

record run =
  exit_status :: exit
  logged :: log_lines
  output_file :: disk
  saved :: "pyval list list"

text \<open>The collection that \<^verbatim>\<open>main\<close> hands to the first \<^verbatim>\<open>save_yaml\<close>.\<close>

definition aggregated :: "world \<Rightarrow> pyval list" where
  "aggregated w =
     process_urls (url_lists w) (http w) (safe_load w) (fetch_order w) URL_FILE_OR_FILES []"

text \<open>
  \<^verbatim>\<open>main()\<close>. The log holds the messages of \<^verbatim>\<open>main\<close>, \<^verbatim>\<open>save_yaml\<close> and
  \<^verbatim>\<open>load_yaml\<close>; \<open>saved\<close> lists the collections given to \<^verbatim>\<open>save_yaml\<close>. The loaded
  value of \<^verbatim>\<open>proxies\<close> is iterated by the comprehension of
  \<^verbatim>\<open>check_proxies_availability\<close>. Nothing in \<^verbatim>\<open>main\<close> catches an exception.
\<close>

definition main :: "world \<Rightarrow> run" where
  "main w =
     (let merged_proxies = aggregated w;
          (d1, log1) = save_yaml (first_write w) merged_proxies;
          log2 = log1 @ [(INFO, ''Aggregation completed'')];
          (content, log3) = load_yaml d1;
          crash = (\<lambda>e. \<lparr>exit_status = Traceback e, logged = log2 @ log3,
                         output_file = d1, saved = [merged_proxies]\<rparr>)
      in case py_get content ''proxies'' (PList []) of
           Inl e \<Rightarrow> crash e
         | Inr proxies \<Rightarrow>
             if truthy proxies then
               (case py_iter proxies of
                  Inl e \<Rightarrow> crash e
                | Inr nodes \<Rightarrow>
                    (case check_proxies_availability (arithmetic w) nodes 5 (network w)
                            (probe_order w) of
                       Inl e \<Rightarrow> crash e
                     | Inr available_proxies \<Rightarrow>
                         (let (d2, log4) = save_yaml (second_write w) available_proxies
                          in \<lparr>exit_status = Completed,
                              logged = log2 @ log3 @ log4
                                @ [(INFO, ''Available proxies updated and saved'')],
                              output_file = d2,
                              saved = [merged_proxies, available_proxies]\<rparr>)))
             else
               \<lparr>exit_status = Completed,
                logged = log2 @ log3 @ [(WARNING, ''No proxies found to check'')],
                output_file = d1, saved = [merged_proxies]\<rparr>)"

section \<open>Example inputs\<close>

text \<open>A network on which the first and the third connect succeed, after 3.90625 and
  7.8125 milliseconds, and the second is refused.\<close>

definition two_of_three :: "nat \<Rightarrow> attempt" where
  "two_of_three k =
     (if k = 0 then Returned 0 10 (10 + 1 / 256)
      else if k = 1 then Returned 111 11 (11 + 1 / 1024)
      else if k = 2 then Returned 0 12 (12 + 1 / 128)
      else Raised)"

text \<open>A network on which no socket can be created in the first pass, and the connects of
  the other passes succeed after 7.8125 milliseconds.\<close>

definition early_failure :: "nat \<Rightarrow> attempt" where
  "early_failure k = (if k = 0 then RaisedEarly else Returned 0 10 (10 + 1 / 128))"

text \<open>Two nodes that can be probed, each with a field that the program never reads; the
  second has its port as a string.\<close>

definition node_a :: pyval where
  "node_a = PDict [(PStr ''name'', PStr ''a''), (PStr ''type'', PStr ''vmess''),
     (PStr ''server'', PStr ''10.0.0.1''), (PStr ''port'', PInt 443),
     (PStr ''uuid'', PStr ''0000-1111'')]"

definition node_b :: pyval where
  "node_b = PDict [(PStr ''name'', PStr ''b''), (PStr ''type'', PStr ''ss''),
     (PStr ''server'', PStr ''10.0.0.2''), (PStr ''port'', PStr ''8388''),
     (PStr ''cipher'', PStr ''aes-128-gcm'')]"

definition task_a :: task where
  "task_a = \<lparr>t_proxy = node_a, t_server = PStr ''10.0.0.1'', t_port = 443,
              t_proto = PStr ''vmess''\<rparr>"

definition task_b :: task where
  "task_b = \<lparr>t_proxy = node_b, t_server = PStr ''10.0.0.2'', t_port = 8388,
              t_proto = PStr ''ss''\<rparr>"

text \<open>A node whose port is text that is not a number.\<close>

definition node_bad_port :: pyval where
  "node_bad_port = PDict [(PStr ''name'', PStr ''c''), (PStr ''type'', PStr ''ss''),
     (PStr ''server'', PStr ''10.0.0.3''), (PStr ''port'', PStr ''abc'')]"

text \<open>A node without a port.\<close>

definition node_no_port :: pyval where
  "node_no_port = PDict [(PStr ''name'', PStr ''d''), (PStr ''type'', PStr ''trojan''),
     (PStr ''server'', PStr ''10.0.0.4'')]"

text \<open>A node whose type is the YAML null.\<close>

definition node_null_type :: pyval where
  "node_null_type = PDict [(PStr ''name'', PStr ''e''), (PStr ''type'', PNone),
     (PStr ''server'', PStr ''10.0.0.5''), (PStr ''port'', PInt 443)]"

definition task_null_type :: task where
  "task_null_type = \<lparr>t_proxy = node_null_type, t_server = PStr ''10.0.0.5'', t_port = 443,
                      t_proto = PNone\<rparr>"



text \<open>A network on which every connect succeeds after 7.8125 milliseconds.\<close>

definition all_fast :: "nat \<Rightarrow> nat \<Rightarrow> attempt" where
  "all_fast i k = Returned 0 100 (100 + 1 / 128)"




text \<open>
  A source list with a comment, a blank line, an indented line that starts with \<open>#\<close>
  after two spaces, and three addresses, the last one indented and followed by spaces.
\<close>

definition demo_lists :: "string \<Rightarrow> list_file" where
  "demo_lists path =
     (if path = ''./urls/clash.txt''
      then Text ''# backup\<newline>\<newline>http://one/sub\<newline>  # backup\<newline>http://down/sub\<newline>  http://two/sub  \<newline>''
      else Missing)"


text \<open>Two sources answer with a document; every other request fails.\<close>

definition demo_http :: "nat \<Rightarrow> string \<Rightarrow> response" where
  "demo_http i url =
     (if url = ''http://one/sub'' then Body ''A''
      else if url = ''http://two/sub'' then Body ''B''
      else RequestFailed)"

text \<open>Documents of one node each.\<close>

definition demo_safe_load :: "string \<Rightarrow> pyerror + pyval" where
  "demo_safe_load data =
     (if data = ''A'' then Inr (PDict [(PStr ''proxies'', PList [node_a])])
      else if data = ''B'' then Inr (PDict [(PStr ''proxies'', PList [node_b])])
      else Inl YAMLError)"

text \<open>Documents of two nodes each.\<close>

definition pair_safe_load :: "string \<Rightarrow> pyerror + pyval" where
  "pair_safe_load data =
     (if data = ''A'' then Inr (PDict [(PStr ''proxies'', PList [node_a, node_b])])
      else if data = ''B'' then Inr (PDict [(PStr ''proxies'', PList [node_no_port, node_bad_port])])
      else Inl YAMLError)"







text \<open>A run in which the first write fails over an empty file, which loads as
  \<^verbatim>\<open>None\<close>.\<close>

definition blank_file_world :: world where
  "blank_file_world = \<lparr>url_lists = demo_lists, http = demo_http, safe_load = demo_safe_load,
     fetch_order = [0, 1, 2, 3], first_write = WriteFailed (Document PNone),
     second_write = Written, arithmetic = exact_arith,
     network = all_fast, probe_order = []\<rparr>"

section \<open>Properties of the prober\<close>

lemma lower_char_idem: "lower_char (lower_char c) = lower_char c"
  by (simp add: lower_char_def)

lemma lower_idem: "lower (lower p) = lower p"
  by (simp add: lower_def lower_char_idem)

lemma lower_skip_protocols: "p \<in> skip_protocols \<Longrightarrow> lower p = p"
  by (auto simp: skip_protocols_def lower_def lower_char_def)

lemma skipped_unprobed:
  "lower p \<in> skip_protocols \<Longrightarrow>
     tcp_connection_test fl server port (PStr p) timeout net = Inr ((False, None), [])"
  by (simp add: tcp_connection_test_def)

lemma range_3: "[0..<3] = [0, 1, 2]"
  by (simp add: upt_rec)

lemma three_passes:
  "foldl (\<lambda>st k. attempt_once fl call (net k) st) ([], []) [0..<3] =
     (samples fl (passes net), replicate (length (filter connected (passes net))) call)"
  unfolding range_3 passes_def
  by (cases "net 0"; cases "net 1"; cases "net 2")
     (simp_all add: samples_def List.map_filter_simps)

lemma not_str_raises:
  "\<not> is_str proto \<Longrightarrow> tcp_connection_test fl server port proto timeout net = Inl AttributeError"
  by (cases proto) (simp_all add: tcp_connection_test_def)

lemma connected_count:
  "length (filter connected (passes net)) \<le> 3"
  "RaisedEarly \<notin> set (passes net) \<Longrightarrow> length (filter connected (passes net)) = 3"
  by (cases "net 0"; cases "net 1"; cases "net 2"; simp add: passes_def)+

lemma vmess_ss_probed: "lower ''vmess'' \<notin> skip_protocols" "lower ''ss'' \<notin> skip_protocols"
  by (simp_all add: lower_def lower_char_def skip_protocols_def)

lemma two_of_three_samples: "samples exact_arith (passes two_of_three) = [125 / 32, 125 / 16]"
  by (simp add: passes_def two_of_three_def samples_def List.map_filter_simps exact_arith_def)

lemma early_failure_samples:
  "samples exact_arith (passes early_failure) = [125 / 16, 125 / 16]"
  "length (filter connected (passes early_failure)) = 2"
  by (simp_all add: passes_def early_failure_def samples_def List.map_filter_simps
        exact_arith_def)

lemma task_of_node_null_type: "task_of node_null_type = Inr (Some task_null_type)"
  by (simp add: task_of_def node_null_type_def task_null_type_def)

text \<open>
  C1, as stated, fails in two ways. A node whose type is \<^verbatim>\<open>None\<close> is outside the
  skip-set and is submitted, and for it \<^verbatim>\<open>proto.lower()\<close> raises before the loop: no
  connect is attempted and nothing is returned. And a pass in which the socket cannot be
  created calls \<^verbatim>\<open>connect_ex\<close> not at all: here two connects are attempted, not three.
\<close>

theorem three_attempts_counterexample:
  "task_of node_null_type = Inr (Some task_null_type) \<and>
   t_proto task_null_type = PNone \<and>
   tcp_connection_test exact_arith (PStr ''10.0.0.5'') 443 PNone 5 two_of_three =
     Inl AttributeError \<and>
   lower ''vmess'' \<notin> skip_protocols \<and>
   tcp_connection_test exact_arith (PStr ''10.0.0.1'') 443 (PStr ''vmess'') 5 early_failure =
     Inr ((True, Some (125 / 16)),
          replicate 2 \<lparr>cc_server = PStr ''10.0.0.1'', cc_port = 443, cc_timeout = 5\<rparr>)"
proof -
  have "tcp_connection_test exact_arith (PStr ''10.0.0.1'') 443 (PStr ''vmess'') 5 early_failure =
     Inr ((True, Some (125 / 16)),
          replicate 2 \<lparr>cc_server = PStr ''10.0.0.1'', cc_port = 443, cc_timeout = 5\<rparr>)"
    by (simp add: tcp_connection_test_def vmess_ss_probed three_passes early_failure_samples)
       (simp add: exact_arith_def)
  moreover have "t_proto task_null_type = PNone"
    by (simp add: task_null_type_def)
  moreover have "tcp_connection_test exact_arith (PStr ''10.0.0.5'') 443 PNone 5 two_of_three =
     Inl AttributeError"
    by (simp add: not_str_raises)
  ultimately show ?thesis
    using task_of_node_null_type vmess_ss_probed(1) by (simp only: simp_thms)
qed

text \<open>
  C1, amended. For a protocol tag that is a string and, lowercased, not in the skip-set,
  \<^verbatim>\<open>tcp_connection_test\<close> makes three passes through its loop. Each pass calls
  \<^verbatim>\<open>connect_ex\<close> once, on the given server and port with the given timeout set on the
  socket, unless creating the socket or setting the timeout raises, in which case the
  pass makes no call: at most three connects are attempted, and exactly three when no
  pass fails that early. If the samples of the three passes (the durations of those in
  which \<^verbatim>\<open>connect_ex\<close> returned 0) are not empty, it returns \<open>(True, mean)\<close>, the mean
  being the sum of the samples divided by their number as the float arithmetic computes
  it, which is their arithmetic mean when that arithmetic rounds nothing; otherwise it
  returns \<open>(False, None)\<close>. For a tag that is not a string it raises
  \<^verbatim>\<open>AttributeError\<close> before any pass.
\<close>

theorem tcp_connection_test_passes_and_mean:
  "(lower p \<notin> skip_protocols \<longrightarrow>
      tcp_connection_test fl server port (PStr p) timeout net =
        Inr ((if samples fl (passes net) = [] then (False, None)
              else (True, Some (mean fl (samples fl (passes net))))),
             replicate (length (filter connected (passes net)))
               \<lparr>cc_server = server, cc_port = port, cc_timeout = timeout\<rparr>) \<and>
      length (filter connected (passes net)) \<le> 3 \<and>
      (RaisedEarly \<notin> set (passes net) \<longrightarrow> length (filter connected (passes net)) = 3)) \<and>
   (\<not> is_str proto \<longrightarrow>
      tcp_connection_test fl server port proto timeout net = Inl AttributeError) \<and>
   mean exact_arith xs = sum_list xs / real (length xs)"
proof -
  have "tcp_connection_test fl server port (PStr p) timeout net =
        Inr ((if samples fl (passes net) = [] then (False, None)
              else (True, Some (mean fl (samples fl (passes net))))),
             replicate (length (filter connected (passes net)))
               \<lparr>cc_server = server, cc_port = port, cc_timeout = timeout\<rparr>)"
    if "lower p \<notin> skip_protocols"
    using that by (simp add: tcp_connection_test_def three_passes mean_def)
  moreover have "mean exact_arith xs = sum_list xs / real (length xs)"
    by (simp add: mean_def exact_arith_def)
  ultimately show ?thesis
    using connected_count [of net] not_str_raises [of proto fl server port timeout net]
    by blast
qed

theorem tcp_connection_test_passes_and_mean_witness:
  "lower ''vmess'' \<notin> skip_protocols \<and>
   samples exact_arith (passes two_of_three) = [125 / 32, 125 / 16] \<and>
   RaisedEarly \<notin> set (passes two_of_three) \<and>
   tcp_connection_test exact_arith (PStr ''10.0.0.1'') 443 (PStr ''vmess'') 5 two_of_three =
     Inr ((True, Some (375 / 64)),
          replicate 3 \<lparr>cc_server = PStr ''10.0.0.1'', cc_port = 443, cc_timeout = 5\<rparr>) \<and>
   \<not> is_str PNone \<and>
   tcp_connection_test exact_arith (PStr ''10.0.0.5'') 443 PNone 5 two_of_three =
     Inl AttributeError"
proof -
  have early: "RaisedEarly \<notin> set (passes two_of_three)"
    by (simp add: passes_def two_of_three_def)
  have nostr: "\<not> is_str PNone"
    by simp
  note th = tcp_connection_test_passes_and_mean
    [where p = "''vmess''" and fl = exact_arith and server = "PStr ''10.0.0.1''" and port = 443
       and timeout = 5 and net = two_of_three and xs = "[125 / 32, 125 / 16]"]
  from th [where proto = PNone] vmess_ss_probed(1) early
  have run: "tcp_connection_test exact_arith (PStr ''10.0.0.1'') 443 (PStr ''vmess'') 5
      two_of_three =
     Inr ((if samples exact_arith (passes two_of_three) = [] then (False, None)
           else (True, Some (mean exact_arith (samples exact_arith (passes two_of_three))))),
          replicate (length (filter connected (passes two_of_three)))
            \<lparr>cc_server = PStr ''10.0.0.1'', cc_port = 443, cc_timeout = 5\<rparr>)"
    and three: "length (filter connected (passes two_of_three)) = 3"
    and avg: "mean exact_arith [125 / 32, 125 / 16] = sum_list [125 / 32, 125 / 16] / real (length [125 / 32, 125 / 16 :: real])"
    by blast+
  have "tcp_connection_test exact_arith (PStr ''10.0.0.1'') 443 (PStr ''vmess'') 5 two_of_three =
     Inr ((True, Some (375 / 64)),
          replicate 3 \<lparr>cc_server = PStr ''10.0.0.1'', cc_port = 443, cc_timeout = 5\<rparr>)"
    unfolding run three two_of_three_samples avg by simp
  moreover have "tcp_connection_test exact_arith (PStr ''10.0.0.5'') 443 PNone 5 two_of_three =
     Inl AttributeError"
    using tcp_connection_test_passes_and_mean
      [where proto = PNone and fl = exact_arith and server = "PStr ''10.0.0.5''" and port = 443
         and timeout = 5 and net = two_of_three]
      nostr by blast
  ultimately show ?thesis
    using vmess_ss_probed(1) two_of_three_samples early nostr by (simp only: simp_thms)
qed

text \<open>
  C3. For a protocol tag in the skip-set (hysteria, hysteria2, hy2, tuic, wireguard,
  juicity), \<^verbatim>\<open>tcp_connection_test\<close> makes no connect attempt and returns
  \<open>(False, None)\<close>, whatever the server, the port, the timeout, the network and the
  arithmetic.
\<close>

theorem skip_set_never_probed:
  assumes "p \<in> skip_protocols"
  shows "tcp_connection_test fl server port (PStr p) timeout net = Inr ((False, None), [])"
  using assms by (simp add: skipped_unprobed lower_skip_protocols)

theorem skip_set_never_probed_witness:
  "''wireguard'' \<in> skip_protocols \<and>
   tcp_connection_test exact_arith (PStr ''10.0.0.1'') 51820 (PStr ''wireguard'') 5 two_of_three =
     Inr ((False, None), [])"
  using skip_set_never_probed
          [of "''wireguard''" exact_arith "PStr ''10.0.0.1''" 51820 5 two_of_three]
  by (simp add: skip_protocols_def)

text \<open>
  C10. The skip-set is matched on the lowercased tag: for a tag whose lowercase form is
  in the skip-set, \<^verbatim>\<open>tcp_connection_test\<close> makes no connect attempt and returns
  \<open>(False, None)\<close>, which is what it does for the lowercase tag.
\<close>

theorem skip_set_case_insensitive:
  assumes "lower p \<in> skip_protocols"
  shows "tcp_connection_test fl server port (PStr p) timeout net = Inr ((False, None), []) \<and>
         tcp_connection_test fl server port (PStr p) timeout net =
           tcp_connection_test fl server port (PStr (lower p)) timeout net"
  using assms by (simp add: skipped_unprobed lower_idem)

theorem skip_set_case_insensitive_witness:
  "lower ''WireGuard'' = ''wireguard'' \<and> lower ''HYSTERIA2'' \<in> skip_protocols \<and>
   tcp_connection_test exact_arith (PStr ''10.0.0.1'') 51820 (PStr ''WireGuard'') 5 two_of_three =
     Inr ((False, None), []) \<and>
   tcp_connection_test exact_arith (PStr ''10.0.0.1'') 443 (PStr ''HYSTERIA2'') 5 two_of_three =
     Inr ((False, None), [])"
  using skip_set_case_insensitive
          [of "''WireGuard''" exact_arith "PStr ''10.0.0.1''" 51820 5 two_of_three]
        skip_set_case_insensitive
          [of "''HYSTERIA2''" exact_arith "PStr ''10.0.0.1''" 443 5 two_of_three]
  by (simp add: lower_def lower_char_def skip_protocols_def)

section \<open>Properties of the filter\<close>

lemma task_of_node_a: "task_of node_a = Inr (Some task_a)"
  by (simp add: task_of_def node_a_def task_a_def)

lemma int_of_str_8388: "int_of_str ''8388'' = Some 8388"
  by (simp add: int_of_str_def int_isspace_def parse_number_def digit_of_def)

lemma int_of_str_abc: "int_of_str ''abc'' = None"
  by (simp add: int_of_str_def int_isspace_def parse_number_def digit_of_def)

lemma task_of_node_b: "task_of node_b = Inr (Some task_b)"
  by (simp add: task_of_def node_b_def task_b_def int_of_str_8388)

lemma task_of_node_bad_port: "task_of node_bad_port = Inl ValueError"
  by (simp add: task_of_def node_bad_port_def int_of_str_abc)


lemma submit_a_b: "submit_tasks [node_a, node_b] = Inr [task_a, task_b]"
  by (simp add: task_of_node_a task_of_node_b)


lemma foldl_append_if:
  "foldl (\<lambda>acc i. if P i then acc @ [f i] else acc) acc0 xs = acc0 @ map f (filter P xs)"
  by (induction xs arbitrary: acc0) auto

lemma collect_eq:
  "collect results tasks order =
     map (\<lambda>i. t_proxy (tasks ! i)) (filter (\<lambda>i. keeps (results i)) order)"
  unfolding collect_def by (simp add: foldl_append_if)

lemma task_of_proxy: "task_of proxy = Inr (Some t) \<Longrightarrow> t_proxy t = proxy"
  by (auto simp: task_of_def split: sum.splits if_splits)

lemma submit_tasks_subseq:
  "submit_tasks proxies = Inr tasks \<Longrightarrow> subseq (map t_proxy tasks) proxies"
proof (induction proxies arbitrary: tasks)
  case Nil
  then show ?case by simp
next
  case (Cons proxy rest)
  then show ?case
    by (auto split: sum.splits option.splits dest: task_of_proxy)
qed



lemma keeps_cases:
  "keeps (Inr (reachable, Some l)) = (reachable \<and> 1 \<le> l \<and> l \<le> 30)"
  "keeps (Inr (reachable, None)) = False"
  "keeps (Inl e) = False"
  by (auto simp: keeps_def in_window_def MIN_LATENCY_THRESHOLD_def LATENCY_THRESHOLD_def)


lemma survivors_subseq: "subseq (survivors fl timeout net tasks) (map t_proxy tasks)"
proof -
  let ?P = "\<lambda>i. keeps (future_result fl timeout (net i) (tasks ! i))"
  have "subseq (map (\<lambda>i. t_proxy (tasks ! i)) (filter ?P [0..<length tasks]))
          (map (\<lambda>i. t_proxy (tasks ! i)) [0..<length tasks])"
    by (intro subseq_map subseq_filter_left)
  moreover have "map (\<lambda>i. t_proxy (tasks ! i)) [0..<length tasks] = map t_proxy tasks"
    by (simp add: map_nth flip: map_map [unfolded comp_def])
  ultimately show ?thesis by (simp add: survivors_def)
qed

lemma mset_kept:
  assumes "task_order n order"
  shows "mset (map f (filter P order)) = mset (map f (filter P [0..<n]))"
proof -
  from assms have "mset order = mset [0..<n]"
    by (simp only: task_order_def)
  then have "image_mset f (filter_mset P (mset order)) =
      image_mset f (filter_mset P (mset [0..<n]))"
    by (simp only:)
  then show ?thesis
    by (simp only: mset_map mset_filter)
qed


lemma check_eq:
  assumes "submit_tasks proxies = Inr tasks"
  shows "check_proxies_availability fl proxies timeout net order =
     Inr (map (\<lambda>i. t_proxy (tasks ! i))
            (filter (\<lambda>i. keeps (future_result fl timeout (net i) (tasks ! i))) order))"
  using assms by (simp add: check_proxies_availability_def collect_eq)


lemma task_order_1_0: "task_order (length [task_a, task_b]) [1, 0]"
  by (simp add: task_order_def upt_rec)

lemma all_fast_result:
  "lower p \<notin> skip_protocols \<Longrightarrow>
     future_result exact_arith 5 (all_fast i)
       \<lparr>t_proxy = n, t_server = s, t_port = q, t_proto = PStr p\<rparr> = Inr (True, Some (125 / 16))"
  by (simp add: future_result_def tcp_connection_test_def range_3 all_fast_def Let_def
        exact_arith_def)


lemma keeps_fast: "keeps (Inr (True, Some (125 / 16)))" "\<not> keeps (Inr (True, Some 125))"
  by (simp_all add: keeps_cases)

lemma check_a_b_reversed:
  "check_proxies_availability exact_arith [node_a, node_b] 5 all_fast [1, 0] =
     Inr [node_b, node_a]"
  unfolding check_proxies_availability_def submit_a_b
  by (simp add: collect_eq task_a_def task_b_def all_fast_result vmess_ss_probed keeps_fast)

lemma check_a_b_in_order:
  "check_proxies_availability exact_arith [node_a, node_b] 5 all_fast [0, 1] =
     Inr [node_a, node_b]"
  unfolding check_proxies_availability_def submit_a_b
  by (simp add: collect_eq task_a_def task_b_def all_fast_result vmess_ss_probed keeps_fast)




text \<open>
  C5, as stated, fails: the output is appended to in the order in which
  \<^verbatim>\<open>as_completed\<close> yields the futures. Two nodes that both pass come out in the input
  order when their futures are yielded in that order, and reversed when the second one is
  yielded first.
\<close>

theorem stable_filter_counterexample:
  "task_order (length [task_a, task_b]) [1, 0] \<and>
   check_proxies_availability exact_arith [node_a, node_b] 5 all_fast [0, 1] =
     Inr [node_a, node_b] \<and>
   check_proxies_availability exact_arith [node_a, node_b] 5 all_fast [1, 0] =
     Inr [node_b, node_a] \<and>
   \<not> subseq [node_b, node_a] [node_a, node_b]"
proof -
  have "\<not> subseq [node_b, node_a] [node_a, node_b]"
    by (simp add: subseq_Cons' node_a_def node_b_def)
  with task_order_1_0 check_a_b_in_order check_a_b_reversed show ?thesis
    by (simp only: simp_thms)
qed

text \<open>
  C5, amended. When the comprehension raises nothing and \<open>order\<close> is the order in which
  \<^verbatim>\<open>as_completed\<close> yields the futures, the output of \<^verbatim>\<open>check_proxies_availability\<close>
  lists the nodes that pass in that order. It is a permutation of the passing nodes taken
  in input order, it is that list itself when the futures are yielded in the order of
  submission, and that list is a subsequence of the input collection.
\<close>

theorem filter_output_in_yield_order:
  assumes "submit_tasks proxies = Inr tasks" and "task_order (length tasks) order"
  shows "\<exists>out. check_proxies_availability fl proxies timeout net order = Inr out \<and>
           out = map (\<lambda>i. t_proxy (tasks ! i))
                   (filter (\<lambda>i. keeps (future_result fl timeout (net i) (tasks ! i))) order) \<and>
           mset out = mset (survivors fl timeout net tasks) \<and>
           (if order = [0..<length tasks] then out = survivors fl timeout net tasks else True) \<and>
           subseq (survivors fl timeout net tasks) proxies"
proof -
  let ?out = "map (\<lambda>i. t_proxy (tasks ! i))
                (filter (\<lambda>i. keeps (future_result fl timeout (net i) (tasks ! i))) order)"
  have run: "check_proxies_availability fl proxies timeout net order = Inr ?out"
    using assms(1) by (rule check_eq)
  have perm: "mset ?out = mset (survivors fl timeout net tasks)"
    unfolding survivors_def by (rule mset_kept [OF assms(2)])
  have same: "order = [0..<length tasks] \<Longrightarrow> ?out = survivors fl timeout net tasks"
    by (simp add: survivors_def)
  have sub: "subseq (survivors fl timeout net tasks) proxies"
    using survivors_subseq submit_tasks_subseq [OF assms(1)] by (rule subseq_order.trans)
  from run perm same sub show ?thesis by auto
qed

theorem filter_output_in_yield_order_witness:
  "submit_tasks [node_a, node_b] = Inr [task_a, task_b] \<and>
   task_order (length [task_a, task_b]) [1, 0] \<and>
   check_proxies_availability exact_arith [node_a, node_b] 5 all_fast [1, 0] =
     Inr [node_b, node_a] \<and>
   mset [node_b, node_a] = mset (survivors exact_arith 5 all_fast [task_a, task_b])"
proof -
  from filter_output_in_yield_order [OF submit_a_b task_order_1_0, of exact_arith 5 all_fast]
  obtain out
    where "check_proxies_availability exact_arith [node_a, node_b] 5 all_fast [1, 0] = Inr out"
      and "mset out = mset (survivors exact_arith 5 all_fast [task_a, task_b])"
    by blast
  then have "mset [node_b, node_a] = mset (survivors exact_arith 5 all_fast [task_a, task_b])"
    unfolding check_a_b_reversed by (simp only: sum.inject)
  with submit_a_b task_order_1_0 check_a_b_reversed show ?thesis
    by (simp only: simp_thms)
qed

text \<open>
  C6 fails on the code for a node whose port is present but is not a number: the
  comprehension applies \<^verbatim>\<open>int\<close> to it outside any \<^verbatim>\<open>try\<close>, and the
  \<^verbatim>\<open>ValueError\<close> leaves \<^verbatim>\<open>check_proxies_availability\<close>.
\<close>

theorem unparseable_port_fails_probing:
  "task_of node_bad_port = Inl ValueError \<and>
   check_proxies_availability exact_arith [node_a, node_bad_port] 5 all_fast [0] =
     Inl ValueError"
  by (simp add: check_proxies_availability_def task_of_node_a task_of_node_bad_port)

lemma submit_tasks_append:
  "submit_tasks (xs @ ys) =
     (case submit_tasks xs of
        Inl e \<Rightarrow> Inl e
      | Inr ts \<Rightarrow> (case submit_tasks ys of Inl e \<Rightarrow> Inl e | Inr us \<Rightarrow> Inr (ts @ us)))"
  by (induction xs) (auto split: sum.splits option.splits)

lemma node_no_port_gets:
  "py_get node_no_port ''server'' PNone = Inr (PStr ''10.0.0.4'')"
  "py_get node_no_port ''port'' PNone = Inr PNone"
  by (simp_all add: node_no_port_def)

lemma check_node_a:
  "check_proxies_availability exact_arith [node_a] 5 all_fast [0] = Inr [node_a]"
  by (simp add: check_proxies_availability_def task_of_node_a collect_eq task_a_def
        all_fast_result vmess_ss_probed keeps_fast)

text \<open>
  A node whose \<^verbatim>\<open>server\<close> or \<^verbatim>\<open>port\<close> is missing or falsy is left out by the condition
  of the comprehension: nothing is submitted for it, nothing is raised for it, and the
  collection with the node gives what the collection without it gives.
\<close>

theorem missing_server_or_port_excluded:
  assumes "py_get proxy ''server'' PNone = Inr s" and "py_get proxy ''port'' PNone = Inr q"
    and "\<not> truthy s \<or> \<not> truthy q"
  shows "task_of proxy = Inr None \<and>
         submit_tasks (xs @ proxy # ys) = submit_tasks (xs @ ys) \<and>
         check_proxies_availability fl (xs @ proxy # ys) timeout net order =
           check_proxies_availability fl (xs @ ys) timeout net order"
proof -
  have t: "task_of proxy = Inr None"
    using assms by (auto simp: task_of_def)
  then have "submit_tasks (proxy # ys) = submit_tasks ys"
    by simp
  then have s: "submit_tasks (xs @ proxy # ys) = submit_tasks (xs @ ys)"
    by (simp only: submit_tasks_append [of xs])
  from t s show ?thesis
    by (simp add: check_proxies_availability_def)
qed

theorem missing_server_or_port_excluded_witness:
  "py_get node_no_port ''server'' PNone = Inr (PStr ''10.0.0.4'') \<and>
   py_get node_no_port ''port'' PNone = Inr PNone \<and>
   task_of node_no_port = Inr None \<and>
   check_proxies_availability exact_arith [node_no_port, node_a] 5 all_fast [0] = Inr [node_a]"
proof -
  have "\<not> truthy (PStr ''10.0.0.4'') \<or> \<not> truthy PNone"
    by simp
  from missing_server_or_port_excluded
         [OF node_no_port_gets this, where xs = "[]" and ys = "[node_a]" and fl = exact_arith
            and timeout = 5 and net = all_fast and order = "[0]"]
  have "task_of node_no_port = Inr None"
    and "check_proxies_availability exact_arith [node_no_port, node_a] 5 all_fast [0] =
         check_proxies_availability exact_arith [node_a] 5 all_fast [0]"
    by simp_all
  with node_no_port_gets check_node_a show ?thesis
    by (simp only: simp_thms)
qed

section \<open>Properties of the source loader\<close>

lemma demo_lines:
  "read_url_files demo_lists URL_FILE_OR_FILES =
     Inr [''# backup'', '''', ''http://one/sub'', ''  # backup'', ''http://down/sub'',
          ''  http://two/sub  '']"
  by (simp add: URL_FILE_OR_FILES_def demo_lists_def splitlines_def is_linebreak_def)

lemma demo_urls:
  "submitted_urls demo_lists URL_FILE_OR_FILES =
     [''http://one/sub'', ''# backup'', ''http://down/sub'', ''http://two/sub'']"
  unfolding submitted_urls_def demo_lines
  by (simp add: clean_urls_def strip_def py_isspace_def startswith_def)

text \<open>
  C7 fails on the code for a comment line that is indented. Line 33 strips the line for
  the test for blankness and for the URL it submits, but tests \<open>#\<close> on the line as
  read: the line with two spaces before the \<open>#\<close> is not removed, and what is submitted
  to the fetcher for it begins with \<open>#\<close>; here it is the very text of the comment line
  that opens the file.
\<close>

theorem indented_comment_line_submitted:
  "read_url_files demo_lists URL_FILE_OR_FILES =
     Inr [''# backup'', '''', ''http://one/sub'', ''  # backup'', ''http://down/sub'',
          ''  http://two/sub  ''] \<and>
   submitted_urls demo_lists URL_FILE_OR_FILES =
     [''http://one/sub'', ''# backup'', ''http://down/sub'', ''http://two/sub''] \<and>
   startswith ''# backup'' ''#''"
  using demo_lines demo_urls by (simp add: startswith_def)

text \<open>
  What the code does with the lines. When the source-list files are read without an
  exception, the URLs that are submitted are the lines that are not blank and whose first
  character is not \<open>#\<close>, each stripped of the whitespace around it, one URL for each
  such line and in the order of the lines. A line that is blank or whose first character
  is \<open>#\<close> contributes nothing: without it the same URLs are submitted. No submitted
  URL is empty.
\<close>

theorem blank_and_comment_lines_ignored:
  assumes "read_url_files fs url_files = Inr lines"
  shows "submitted_urls fs url_files =
           map strip (filter (\<lambda>l. strip l \<noteq> [] \<and> \<not> startswith l ''#'') lines) \<and>
         (\<forall>xs l ys. lines = xs @ l # ys \<and> (strip l = [] \<or> startswith l ''#'') \<longrightarrow>
            submitted_urls fs url_files = clean_urls (xs @ ys)) \<and>
         (\<forall>u \<in> set (submitted_urls fs url_files).
            u \<noteq> [] \<and> (\<exists>l \<in> set lines. u = strip l \<and> \<not> startswith l ''#''))"
  using assms by (auto simp: submitted_urls_def clean_urls_def)

theorem blank_and_comment_lines_ignored_witness:
  "read_url_files demo_lists URL_FILE_OR_FILES =
     Inr [''# backup'', '''', ''http://one/sub'', ''  # backup'', ''http://down/sub'',
          ''  http://two/sub  ''] \<and>
   submitted_urls demo_lists URL_FILE_OR_FILES =
     map strip [''http://one/sub'', ''  # backup'', ''http://down/sub'', ''  http://two/sub  '']"
proof -
  from blank_and_comment_lines_ignored [OF demo_lines]
  have "submitted_urls demo_lists URL_FILE_OR_FILES =
     map strip (filter (\<lambda>l. strip l \<noteq> [] \<and> \<not> startswith l ''#'')
       [''# backup'', '''', ''http://one/sub'', ''  # backup'', ''http://down/sub'',
        ''  http://two/sub  ''])"
    by blast
  also have "filter (\<lambda>l. strip l \<noteq> [] \<and> \<not> startswith l ''#'')
       [''# backup'', '''', ''http://one/sub'', ''  # backup'', ''http://down/sub'',
        ''  http://two/sub  ''] =
     [''http://one/sub'', ''  # backup'', ''http://down/sub'', ''  http://two/sub  '']"
    by (simp add: strip_def py_isspace_def startswith_def)
  finally show ?thesis
    using demo_lines by (simp only: simp_thms)
qed

section \<open>Properties of the aggregator\<close>

lemma process_clash_append:
  "process_clash sl data i merged = merged @ process_clash sl data i []"
  by (simp add: process_clash_def split: sum.splits)

lemma fetch_append:
  "fetch_and_process_url resp sl i merged = merged @ fetch_and_process_url resp sl i []"
  using process_clash_append [of sl _ i merged]
  by (simp add: fetch_and_process_url_def split: response.splits)

lemma foldl_fetch:
  "foldl (\<lambda>merged i. fetch_and_process_url (h i) sl i merged) merged0 order =
     merged0 @ concat (map (\<lambda>i. fetch_and_process_url (h i) sl i []) order)"
proof (induction order arbitrary: merged0)
  case Nil
  then show ?case by simp
next
  case (Cons i order)
  show ?case
    using fetch_append [of "h i" sl i merged0] by (simp add: Cons.IH)
qed

lemma process_urls_concat:
  "process_urls fs h sl order url_files [] =
     concat (map (extracted h sl (submitted_urls fs url_files)) order)"
  using foldl_fetch [of "\<lambda>i. h i (submitted_urls fs url_files ! i)" sl "[]" order]
  by (simp add: process_urls_def Let_def extracted_def [abs_def])

lemma mset_concat_perm:
  assumes "task_order n order"
  shows "mset (concat (map f order)) = mset (concat (map f [0..<n]))"
proof -
  from assms have "mset order = mset [0..<n]"
    by (simp only: task_order_def)
  then have "image_mset (\<lambda>i. mset (f i)) (mset order) =
      image_mset (\<lambda>i. mset (f i)) (mset [0..<n])"
    by (simp only:)
  then have "mset (map (\<lambda>i. mset (f i)) order) = mset (map (\<lambda>i. mset (f i)) [0..<n])"
    by (simp only: mset_map)
  then have "sum_list (map (\<lambda>i. mset (f i)) order) = sum_list (map (\<lambda>i. mset (f i)) [0..<n])"
    by (metis sum_mset_sum_list)
  then show ?thesis
    by (simp add: mset_concat comp_def)
qed

text \<open>What a source contributes, case by case.\<close>

lemma extracted_document:
  "h i (urls ! i) = Body data \<Longrightarrow> sl data = Inr content \<Longrightarrow>
     py_get content ''proxies'' (PList []) = Inr (PList nodes) \<Longrightarrow>
     extracted h sl urls i = nodes"
  by (simp add: extracted_def fetch_and_process_url_def process_clash_def)

lemma extracted_fetch_failed:
  "h i (urls ! i) = RequestFailed \<or> h i (urls ! i) = FetchCrashed \<Longrightarrow>
     extracted h sl urls i = []"
  by (auto simp: extracted_def fetch_and_process_url_def)

lemma extracted_decode_failed:
  "h i (urls ! i) = Body data \<Longrightarrow> sl data = Inl e \<Longrightarrow> extracted h sl urls i = []"
  by (simp add: extracted_def fetch_and_process_url_def process_clash_def)

lemma extracted_not_a_mapping:
  "h i (urls ! i) = Body data \<Longrightarrow> sl data = Inr content \<Longrightarrow>
     py_get content ''proxies'' (PList []) = Inl e \<Longrightarrow> extracted h sl urls i = []"
  by (simp add: extracted_def fetch_and_process_url_def process_clash_def)

lemma extracted_no_proxies:
  "h i (urls ! i) = Body data \<Longrightarrow> sl data = Inr content \<Longrightarrow>
     py_get content ''proxies'' (PList []) = Inr v \<Longrightarrow> \<not> truthy v \<Longrightarrow>
     extracted h sl urls i = []"
  by (simp add: extracted_def fetch_and_process_url_def process_clash_def)

lemma pair_extracted:
  "extracted demo_http pair_safe_load urls i =
     (if urls ! i = ''http://one/sub'' then [node_a, node_b]
      else if urls ! i = ''http://two/sub'' then [node_no_port, node_bad_port]
      else [])"
  by (simp add: extracted_def demo_http_def pair_safe_load_def fetch_and_process_url_def
        process_clash_def)

lemma demo_extracted:
  "extracted demo_http demo_safe_load urls i =
     (if urls ! i = ''http://one/sub'' then [node_a]
      else if urls ! i = ''http://two/sub'' then [node_b]
      else [])"
  by (simp add: extracted_def demo_http_def demo_safe_load_def fetch_and_process_url_def
        process_clash_def)

lemma demo_order:
  "task_order
     (length [''http://one/sub'', ''# backup'', ''http://down/sub'', ''http://two/sub''])
     [3, 2, 1, 0]"
  by (simp add: task_order_def upt_rec eval_nat_numeral)

lemma demo_in_order:
  "process_urls demo_lists demo_http demo_safe_load [0, 1, 2, 3] URL_FILE_OR_FILES [] =
     [node_a, node_b]"
  unfolding process_urls_concat demo_urls by (simp add: demo_extracted)

lemma pair_in_order:
  "process_urls demo_lists demo_http pair_safe_load [0, 1, 2, 3] URL_FILE_OR_FILES [] =
     [node_a, node_b, node_no_port, node_bad_port]"
  unfolding process_urls_concat demo_urls by (simp add: pair_extracted)

lemma pair_reversed:
  "process_urls demo_lists demo_http pair_safe_load [3, 2, 1, 0] URL_FILE_OR_FILES [] =
     [node_no_port, node_bad_port, node_a, node_b]"
  unfolding process_urls_concat demo_urls by (simp add: pair_extracted)

text \<open>
  C4, as stated, fails: each task extends \<^verbatim>\<open>merged_proxies\<close> when its own response
  has arrived, and \<^verbatim>\<open>index\<close> is used in log messages only. With the same four
  sources, of which two fail, the collection is in source order when the tasks run in
  source order, and has the nodes of the last source first when they run in the opposite
  order.
\<close>

theorem source_order_merge_counterexample:
  "submitted_urls demo_lists URL_FILE_OR_FILES =
     [''http://one/sub'', ''# backup'', ''http://down/sub'', ''http://two/sub''] \<and>
   task_order
     (length [''http://one/sub'', ''# backup'', ''http://down/sub'', ''http://two/sub''])
     [3, 2, 1, 0] \<and>
   process_urls demo_lists demo_http pair_safe_load [0, 1, 2, 3] URL_FILE_OR_FILES [] =
     [node_a, node_b, node_no_port, node_bad_port] \<and>
   process_urls demo_lists demo_http pair_safe_load [3, 2, 1, 0] URL_FILE_OR_FILES [] =
     [node_no_port, node_bad_port, node_a, node_b] \<and>
   [node_no_port, node_bad_port, node_a, node_b] \<noteq>
     [node_a, node_b, node_no_port, node_bad_port]"
proof -
  have "[node_no_port, node_bad_port, node_a, node_b] \<noteq>
      [node_a, node_b, node_no_port, node_bad_port]"
    by (simp add: node_a_def node_no_port_def)
  with demo_urls demo_order pair_in_order pair_reversed show ?thesis
    by (simp only: simp_thms)
qed

text \<open>
  C4, amended. Let \<open>urls\<close> be the submitted URLs and \<open>order\<close> the order in which the
  fetch tasks extend the shared list. The aggregated collection is the concatenation,
  in that order, of what the sources contribute. A source whose response is a document
  that is a mapping with a list under \<open>proxies\<close> (or with no such key) contributes
  that list, whole and in document order. A source whose fetch fails, whose body does not
  decode, whose document is not a mapping, or whose \<open>proxies\<close> value is empty or
  \<^verbatim>\<open>None\<close>, contributes nothing. The collection is a permutation of the concatenation in
  source order, its length is the sum of the numbers of nodes contributed, and it is the
  concatenation in source order when the tasks run in source order.
\<close>

theorem aggregation_in_task_order:
  assumes "urls = submitted_urls fs url_files" and "task_order (length urls) order"
  shows "process_urls fs h sl order url_files [] = concat (map (extracted h sl urls) order) \<and>
         (\<forall>i data content nodes.
            h i (urls ! i) = Body data \<and> sl data = Inr content \<and>
            py_get content ''proxies'' (PList []) = Inr (PList nodes) \<longrightarrow>
            extracted h sl urls i = nodes) \<and>
         (\<forall>i. h i (urls ! i) = RequestFailed \<or> h i (urls ! i) = FetchCrashed \<longrightarrow>
            extracted h sl urls i = []) \<and>
         (\<forall>i data e. h i (urls ! i) = Body data \<and> sl data = Inl e \<longrightarrow>
            extracted h sl urls i = []) \<and>
         (\<forall>i data content e.
            h i (urls ! i) = Body data \<and> sl data = Inr content \<and>
            py_get content ''proxies'' (PList []) = Inl e \<longrightarrow>
            extracted h sl urls i = []) \<and>
         (\<forall>i data content v.
            h i (urls ! i) = Body data \<and> sl data = Inr content \<and>
            py_get content ''proxies'' (PList []) = Inr v \<and> \<not> truthy v \<longrightarrow>
            extracted h sl urls i = []) \<and>
         mset (process_urls fs h sl order url_files []) =
           mset (concat (map (extracted h sl urls) [0..<length urls])) \<and>
         length (process_urls fs h sl order url_files []) =
           sum_list (map (\<lambda>i. length (extracted h sl urls i)) [0..<length urls]) \<and>
         (if order = [0..<length urls]
          then process_urls fs h sl order url_files [] =
                 concat (map (extracted h sl urls) [0..<length urls])
          else True)"
proof -
  have eq: "process_urls fs h sl order url_files [] = concat (map (extracted h sl urls) order)"
    by (simp add: process_urls_concat assms(1))
  have perm: "mset (concat (map (extracted h sl urls) order)) =
      mset (concat (map (extracted h sl urls) [0..<length urls]))"
    by (rule mset_concat_perm [OF assms(2)])
  have "length (concat (map (extracted h sl urls) order)) =
      length (concat (map (extracted h sl urls) [0..<length urls]))"
    using perm by (rule mset_eq_length)
  then have len: "length (concat (map (extracted h sl urls) order)) =
      sum_list (map (\<lambda>i. length (extracted h sl urls i)) [0..<length urls])"
    by (simp add: length_concat comp_def)
  have rest: "mset (process_urls fs h sl order url_files []) =
           mset (concat (map (extracted h sl urls) [0..<length urls])) \<and>
         length (process_urls fs h sl order url_files []) =
           sum_list (map (\<lambda>i. length (extracted h sl urls i)) [0..<length urls]) \<and>
         (if order = [0..<length urls]
          then process_urls fs h sl order url_files [] =
                 concat (map (extracted h sl urls) [0..<length urls])
          else True)"
    using eq perm len by (cases "order = [0..<length urls]") simp_all
  show ?thesis
    using eq rest extracted_document [of h _ urls _ sl] extracted_fetch_failed [of h _ urls sl]
      extracted_decode_failed [of h _ urls _ sl] extracted_not_a_mapping [of h _ urls _ sl]
      extracted_no_proxies [of h _ urls _ sl]
    by blast
qed

theorem aggregation_in_task_order_witness:
  "task_order
     (length [''http://one/sub'', ''# backup'', ''http://down/sub'', ''http://two/sub''])
     [3, 2, 1, 0] \<and>
   demo_http 0 ''http://one/sub'' = Body ''A'' \<and>
   pair_safe_load ''A'' = Inr (PDict [(PStr ''proxies'', PList [node_a, node_b])]) \<and>
   extracted demo_http pair_safe_load
     [''http://one/sub'', ''# backup'', ''http://down/sub'', ''http://two/sub''] 0 =
     [node_a, node_b] \<and>
   demo_http 2 ''http://down/sub'' = RequestFailed \<and>
   extracted demo_http pair_safe_load
     [''http://one/sub'', ''# backup'', ''http://down/sub'', ''http://two/sub''] 2 = [] \<and>
   process_urls demo_lists demo_http pair_safe_load [3, 2, 1, 0] URL_FILE_OR_FILES [] =
     [node_no_port, node_bad_port, node_a, node_b] \<and>
   length (process_urls demo_lists demo_http pair_safe_load [3, 2, 1, 0] URL_FILE_OR_FILES []) =
     length [node_a, node_b] + length [node_no_port, node_bad_port]"
proof -
  let ?urls = "[''http://one/sub'', ''# backup'', ''http://down/sub'', ''http://two/sub'']"
  note th = aggregation_in_task_order
    [OF demo_urls [symmetric] demo_order, of demo_http pair_safe_load]
  have body: "demo_http 0 (?urls ! 0) = Body ''A''"
    and doc: "pair_safe_load ''A'' = Inr (PDict [(PStr ''proxies'', PList [node_a, node_b])])"
    and get: "py_get (PDict [(PStr ''proxies'', PList [node_a, node_b])]) ''proxies'' (PList []) =
      Inr (PList [node_a, node_b])"
    and down: "demo_http 2 (?urls ! 2) = RequestFailed"
    by (simp_all add: demo_http_def pair_safe_load_def)
  from th body doc get have first: "extracted demo_http pair_safe_load ?urls 0 = [node_a, node_b]"
    by blast
  from th down have third: "extracted demo_http pair_safe_load ?urls 2 = []"
    by blast
  from th have "length (process_urls demo_lists demo_http pair_safe_load [3, 2, 1, 0]
          URL_FILE_OR_FILES []) =
      sum_list (map (\<lambda>i. length (extracted demo_http pair_safe_load ?urls i))
        [0..<length ?urls])"
    by blast
  also have "\<dots> = length [node_a, node_b] + length [node_no_port, node_bad_port]"
    by (simp add: upt_rec pair_extracted)
  finally have len: "length (process_urls demo_lists demo_http pair_safe_load [3, 2, 1, 0]
          URL_FILE_OR_FILES []) = length [node_a, node_b] + length [node_no_port, node_bad_port]" .
  have b0: "demo_http 0 ''http://one/sub'' = Body ''A''"
    and d2: "demo_http 2 ''http://down/sub'' = RequestFailed"
    by (simp_all add: demo_http_def)
  from demo_order b0 doc first d2 third pair_reversed len show ?thesis
    by (simp only: simp_thms)
qed

section \<open>Properties of a run\<close>




lemma blank_file_aggregated: "aggregated blank_file_world = [node_a, node_b]"
  by (simp add: aggregated_def blank_file_world_def demo_in_order del: One_nat_def)







lemma blank_file_main:
  "main blank_file_world =
     \<lparr>exit_status = Traceback AttributeError,
      logged = [(ERROR, ''Error saving YAML file''), (INFO, ''Aggregation completed'')],
      output_file = Document PNone,
      saved = [[node_a, node_b]]\<rparr>"
  unfolding main_def blank_file_aggregated
  by (simp add: save_yaml_def load_yaml_def blank_file_world_def Let_def)










end
